theory Spec2Isabelle
  imports Complex_Main
begin

section \<open>Data model of tiffcomposer.core.coordinates\<close>

text \<open>
  Python floats are modelled as the real numbers: the checks, the branches and the
  formulas are those of the source, rounding is not modelled. Exceptions are values of
  the type \<open>error\<close>; a function that may raise returns \<open>error + 'a\<close>.
\<close>

datatype error =
    GeoCoordinateError string
  | ValueError string
  | TypeError
  | KeyError string
  | IndexError
  | ZeroDivisionError

text \<open>Sequencing of computations that may raise: the first exception wins.\<close>

definition bind :: "error + 'a \<Rightarrow> ('a \<Rightarrow> error + 'b) \<Rightarrow> error + 'b" where
  "bind m f = (case m of Inl e \<Rightarrow> Inl e | Inr x \<Rightarrow> f x)"

text \<open>The attributes \<open>_latitude\<close> and \<open>_longitude\<close> of a \<open>GeoCoordinate\<close> object.\<close>

record GeoCoordinate =
  latitude :: real
  longitude :: real

text \<open>
  An argument typed \<open>object\<close> in the source, on which the code runs
  \<open>isinstance(other, GeoCoordinate)\<close>.
\<close>

datatype pyobject = GeoCoordinateObj GeoCoordinate | NonGeoCoordinate

text \<open>
  The property setters. A setter either raises, before the assignment, or assigns; the
  model returns the outcome together with the object as it is afterwards.
\<close>

definition latitude_setter :: "real \<Rightarrow> GeoCoordinate \<Rightarrow> (error + unit) \<times> GeoCoordinate" where
  "latitude_setter v self =
     (if \<not> (-90 \<le> v \<and> v \<le> 90)
      then (Inl (GeoCoordinateError ''Latitude must be between -90 and 90 degrees.''), self)
      else (Inr (), self\<lparr>latitude := v\<rparr>))"

definition longitude_setter :: "real \<Rightarrow> GeoCoordinate \<Rightarrow> (error + unit) \<times> GeoCoordinate" where
  "longitude_setter v self =
     (if \<not> (-180 \<le> v \<and> v \<le> 180)
      then (Inl (GeoCoordinateError ''Longitude must be between -180 and 180 degrees.''), self)
      else (Inr (), self\<lparr>longitude := v\<rparr>))"

text \<open>
  \<open>__init__\<close> assigns \<open>self.latitude\<close> and then \<open>self.longitude\<close> through the setters,
  on a new object; the object exists for the caller only when neither raised.
\<close>

definition GeoCoordinate_init :: "real \<Rightarrow> real \<Rightarrow> error + GeoCoordinate" where
  "GeoCoordinate_init lat lon =
     (if \<not> (-90 \<le> lat \<and> lat \<le> 90)
      then Inl (GeoCoordinateError ''Latitude must be between -90 and 90 degrees.'')
      else if \<not> (-180 \<le> lon \<and> lon \<le> 180)
      then Inl (GeoCoordinateError ''Longitude must be between -180 and 180 degrees.'')
      else Inr \<lparr>latitude = lat, longitude = lon\<rparr>)"

text \<open>The invariant of every object the constructor and the setters leave behind.\<close>

definition in_domain :: "GeoCoordinate \<Rightarrow> bool" where
  "in_domain c =
     (-90 \<le> latitude c \<and> latitude c \<le> 90 \<and> -180 \<le> longitude c \<and> longitude c \<le> 180)"

definition inverted :: "GeoCoordinate \<Rightarrow> error + GeoCoordinate" where
  "inverted self = GeoCoordinate_init (longitude self) (latitude self)"

definition to_tuple :: "GeoCoordinate \<Rightarrow> real \<times> real" where
  "to_tuple self = (latitude self, longitude self)"

definition to_list :: "GeoCoordinate \<Rightarrow> real list" where
  "to_list self = [latitude self, longitude self]"

definition to_dict :: "GeoCoordinate \<Rightarrow> (string \<rightharpoonup> real)" where
  "to_dict self = [''latitude'' \<mapsto> latitude self, ''longitude'' \<mapsto> longitude self]"

definition from_tuple :: "real \<times> real \<Rightarrow> error + GeoCoordinate" where
  "from_tuple values = GeoCoordinate_init (fst values) (snd values)"

text \<open>\<open>cls(*values)\<close>: a list of any other length is a wrong number of arguments.\<close>

definition from_list :: "real list \<Rightarrow> error + GeoCoordinate" where
  "from_list values =
     (case values of
        [lat, lon] \<Rightarrow> GeoCoordinate_init lat lon
      | _ \<Rightarrow> Inl TypeError)"

definition from_dict :: "(string \<rightharpoonup> real) \<Rightarrow> error + GeoCoordinate" where
  "from_dict values =
     (case values ''latitude'' of
        None \<Rightarrow> Inl (KeyError ''latitude'')
      | Some lat \<Rightarrow>
          (case values ''longitude'' of
             None \<Rightarrow> Inl (KeyError ''longitude'')
           | Some lon \<Rightarrow> GeoCoordinate_init lat lon))"

definition GeoCoordinate_eq :: "GeoCoordinate \<Rightarrow> pyobject \<Rightarrow> error + bool" where
  "GeoCoordinate_eq self other =
     (case other of
        NonGeoCoordinate \<Rightarrow>
          Inl (GeoCoordinateError ''Cannot compare GeoCoordinate with non-GeoCoordinate object.'')
      | GeoCoordinateObj o' \<Rightarrow>
          Inr (latitude self = latitude o' \<and> longitude self = longitude o'))"

definition GeoCoordinate_add :: "GeoCoordinate \<Rightarrow> pyobject \<Rightarrow> error + GeoCoordinate" where
  "GeoCoordinate_add self other =
     (case other of
        NonGeoCoordinate \<Rightarrow>
          Inl (GeoCoordinateError ''Cannot add GeoCoordinate with non-GeoCoordinate object.'')
      | GeoCoordinateObj o' \<Rightarrow>
          GeoCoordinate_init (latitude self + latitude o') (longitude self + longitude o'))"

definition GeoCoordinate_sub :: "GeoCoordinate \<Rightarrow> pyobject \<Rightarrow> error + GeoCoordinate" where
  "GeoCoordinate_sub self other =
     (case other of
        NonGeoCoordinate \<Rightarrow>
          Inl (GeoCoordinateError ''Cannot subtract GeoCoordinate with non-GeoCoordinate object.'')
      | GeoCoordinateObj o' \<Rightarrow>
          GeoCoordinate_init (latitude self - latitude o') (longitude self - longitude o'))"


text \<open>The outcome "raised \<open>GeoCoordinateError\<close>", whatever the message.\<close>

definition raises_GeoCoordinateError :: "error + 'a \<Rightarrow> bool" where
  "raises_GeoCoordinateError r = (case r of Inl (GeoCoordinateError _) \<Rightarrow> True | _ \<Rightarrow> False)"

section \<open>GeoCoordinateExtent\<close>

record GeoCoordinateExtent =
  extent_start :: GeoCoordinate
  extent_end :: GeoCoordinate

text \<open>
  \<open>__init__\<close> assigns \<open>start\<close> and then \<open>end\<close>; each setter raises when the value is
  not a \<open>GeoCoordinate\<close>.
\<close>

definition GeoCoordinateExtent_init :: "pyobject \<Rightarrow> pyobject \<Rightarrow> error + GeoCoordinateExtent" where
  "GeoCoordinateExtent_init s e =
     (case s of
        NonGeoCoordinate \<Rightarrow>
          Inl (GeoCoordinateError ''Start coordinate must be a GeoCoordinate object.'')
      | GeoCoordinateObj s' \<Rightarrow>
          (case e of
             NonGeoCoordinate \<Rightarrow>
               Inl (GeoCoordinateError ''End coordinate must be a GeoCoordinate object.'')
           | GeoCoordinateObj e' \<Rightarrow> Inr \<lparr>extent_start = s', extent_end = e'\<rparr>))"

definition extent_to_tuple :: "GeoCoordinateExtent \<Rightarrow> real \<times> real \<times> real \<times> real" where
  "extent_to_tuple self =
     (longitude (extent_start self), latitude (extent_end self),
      longitude (extent_end self), latitude (extent_start self))"

definition extent_to_list :: "GeoCoordinateExtent \<Rightarrow> real list" where
  "extent_to_list self =
     [longitude (extent_start self), latitude (extent_end self),
      longitude (extent_end self), latitude (extent_start self)]"

definition extent_to_dict :: "GeoCoordinateExtent \<Rightarrow> (string \<rightharpoonup> real)" where
  "extent_to_dict self =
     [''left'' \<mapsto> longitude (extent_start self),
      ''bottom'' \<mapsto> latitude (extent_start self),
      ''right'' \<mapsto> longitude (extent_end self),
      ''top'' \<mapsto> latitude (extent_end self)]"

section \<open>The raster handle and tiffcomposer.utils\<close>

text \<open>
  \<open>Window(col_off, row_off, width, height)\<close> of the raster library: the record of its
  four arguments (\<open>Window_init\<close> below is the validation its constructor runs).
\<close>

record Window =
  col_off :: int
  row_off :: int
  win_width :: int
  win_height :: int

text \<open>
  What the code uses of the opened dataset \<open>src\<close>: \<open>inv_transform src p\<close> stands for
  \<open>~src.transform * p\<close>, the inverse of the affine transform applied to a point;
  \<open>read src band window\<close> for \<open>src.read(band, window=window)\<close>, a two-dimensional array
  given as the list of its rows.
\<close>

record DatasetReader =
  inv_transform :: "real \<times> real \<Rightarrow> real \<times> real"
  width :: int
  height :: int
  read :: "nat \<Rightarrow> Window \<Rightarrow> real list list"

text \<open>Python's \<open>int(x)\<close> on a float: truncation towards zero.\<close>

definition py_int :: "real \<Rightarrow> int" where
  "py_int x = (if 0 \<le> x then \<lfloor>x\<rfloor> else \<lceil>x\<rceil>)"

text \<open>
  \<open>clip_tiff_to_extent\<close>, lines 51 to 69: the four arguments of the window, before
  the raster library's constructor checks them. The names are the source's: the
  first component of the inverse transform is bound to \<open>row_min\<close> (\<open>row_max\<close>), the
  second to \<open>col_min\<close> (\<open>col_max\<close>).
\<close>

definition extent_window :: "DatasetReader \<Rightarrow> GeoCoordinateExtent \<Rightarrow> Window" where
  "extent_window src extent =
     (case extent_to_tuple extent of (left', bottom', right', top') \<Rightarrow>
      case inv_transform src (left', top') of (row_min_f, col_min_f) \<Rightarrow>
      case inv_transform src (right', bottom') of (row_max_f, col_max_f) \<Rightarrow>
        let row_min_i = py_int row_min_f; col_min_i = py_int col_min_f;
            row_max_i = py_int row_max_f; col_max_i = py_int col_max_f;
            row_min = max 0 row_min_i;
            col_min = max 0 col_min_i;
            row_max = min (height src) row_max_i;
            col_max = min (width src) col_max_i
        in \<lparr>col_off = col_min, row_off = row_min,
            win_width = col_max - col_min, win_height = row_max - row_min\<rparr>)"

text \<open>
  The constructor \<open>Window(col_off, row_off, width, height)\<close> of the raster library
  validates its two lengths: a negative width or height raises \<open>ValueError\<close>.
\<close>

definition Window_init :: "Window \<Rightarrow> error + Window" where
  "Window_init w =
     (if win_width w < 0 \<or> win_height w < 0
      then Inl (ValueError ''Number of columns or rows must be non-negative'')
      else Inr w)"

text \<open>
  \<open>clip_tiff_to_extent\<close>: the window is constructed from the four arguments, then the
  first band is read within it.
\<close>

definition clip_tiff_to_extent ::
  "DatasetReader \<Rightarrow> GeoCoordinateExtent \<Rightarrow> error + real list list" where
  "clip_tiff_to_extent src extent =
     bind (Window_init (extent_window src extent)) (\<lambda>window. Inr (read src 1 window))"

text \<open>
  The reductions of the array library on a one-dimensional array: the mean of an empty
  array is the value NaN (a warning, no exception); the maximum and the minimum of an
  empty array raise \<open>ValueError\<close>.
\<close>

datatype npfloat = Num real | NaN

definition np_mean :: "real list \<Rightarrow> error + npfloat" where
  "np_mean xs = (if xs = [] then Inr NaN else Inr (Num (sum_list xs / real (length xs))))"

definition np_max :: "real list \<Rightarrow> error + npfloat" where
  "np_max xs =
     (if xs = []
      then Inl (ValueError ''zero-size array to reduction operation maximum which has no identity'')
      else Inr (Num (fold max (tl xs) (hd xs))))"

definition np_min :: "real list \<Rightarrow> error + npfloat" where
  "np_min xs =
     (if xs = []
      then Inl (ValueError ''zero-size array to reduction operation minimum which has no identity'')
      else Inr (Num (fold min (tl xs) (hd xs))))"

text \<open>\<open>clipped_data[clipped_data > 0]\<close>: the samples greater than 0, flattened.\<close>

definition positive_samples :: "real list list \<Rightarrow> real list" where
  "positive_samples clipped_data = filter (\<lambda>x. 0 < x) (concat clipped_data)"

text \<open>
  The aggregate of the samples greater than 0. The message of the last branch is the
  source's without the quotation marks around the three mode names.
\<close>

definition get_population_density_in_extent ::
  "GeoCoordinateExtent \<Rightarrow> DatasetReader \<Rightarrow> string \<Rightarrow> error + npfloat" where
  "get_population_density_in_extent extent src mode =
     bind (clip_tiff_to_extent src extent) (\<lambda>clipped_data.
       let clipped_data = positive_samples clipped_data
       in if mode = ''mean'' then np_mean clipped_data
          else if mode = ''max'' then np_max clipped_data
          else if mode = ''min'' then np_min clipped_data
          else Inl (ValueError ''Mode must be mean, max, or min''))"

text \<open>
  \<open>data[i, j]\<close> on a two-dimensional array: a negative index counts from the end, an
  index out of range raises \<open>IndexError\<close>.
\<close>

definition ndarray_get :: "real list list \<Rightarrow> int \<Rightarrow> int \<Rightarrow> error + real" where
  "ndarray_get data i j =
     (let nrows = int (length data);
          i' = (if i < 0 then nrows + i else i)
      in if \<not> (0 \<le> i' \<and> i' < nrows) then Inl IndexError
         else
           let r = data ! nat i';
               ncols = int (length r);
               j' = (if j < 0 then ncols + j else j)
           in if \<not> (0 \<le> j' \<and> j' < ncols) then Inl IndexError else Inr (r ! nat j'))"

definition get_value_from_coordinates ::
  "GeoCoordinate \<Rightarrow> DatasetReader \<Rightarrow> real list list \<Rightarrow> error + real option" where
  "get_value_from_coordinates coordinate src data =
     bind (inverted coordinate) (\<lambda>swapped.
       case inv_transform src (to_tuple swapped) of (col, row) \<Rightarrow>
         if 0 \<le> col \<and> col < real_of_int (width src) \<and> 0 \<le> row \<and> row < real_of_int (height src)
         then bind (ndarray_get data (py_int row) (py_int col)) (\<lambda>pixel_value.
                Inr (Some pixel_value))
         else Inr None)"

section \<open>Distances\<close>

text \<open>
  The functions of the \<open>math\<close> module the code calls. \<open>sqrt\<close> raises on a negative
  argument, the division of floats raises on a zero divisor, \<open>atan2 y x\<close> is the angle of
  the point \<open>(x, y)\<close> in \<open>(-pi, pi]\<close>.
\<close>

definition radians :: "real \<Rightarrow> real" where
  "radians x = x * pi / 180"

definition degrees :: "real \<Rightarrow> real" where
  "degrees x = x * 180 / pi"

definition py_sqrt :: "real \<Rightarrow> error + real" where
  "py_sqrt x = (if x < 0 then Inl (ValueError ''math domain error'') else Inr (sqrt x))"

definition py_div :: "real \<Rightarrow> real \<Rightarrow> error + real" where
  "py_div x y = (if y = 0 then Inl ZeroDivisionError else Inr (x / y))"

definition atan2 :: "real \<Rightarrow> real \<Rightarrow> real" where
  "atan2 y x =
     (if 0 < x then arctan (y / x)
      else if x < 0 \<and> 0 \<le> y then arctan (y / x) + pi
      else if x < 0 \<and> y < 0 then arctan (y / x) - pi
      else if 0 < y then pi / 2
      else if y < 0 then - pi / 2
      else 0)"

definition earth_radius :: "real \<Rightarrow> error + real" where
  "earth_radius lat =
     (let a = 6378137;
          b = 6356752.314245;
          lat_rad = radians lat
      in bind (py_div ((a\<^sup>2 * cos lat_rad)\<^sup>2 + (b\<^sup>2 * sin lat_rad)\<^sup>2)
                      ((a * cos lat_rad)\<^sup>2 + (b * sin lat_rad)\<^sup>2))
           py_sqrt)"

text \<open>\<open>np.linspace(start, stop, num)\<close>: \<open>num\<close> evenly spaced values, both ends included.\<close>

definition linspace :: "real \<Rightarrow> real \<Rightarrow> nat \<Rightarrow> real list" where
  "linspace start stop num =
     map (\<lambda>i. start + real i * ((stop - start) / real (num - 1))) [0..<num]"

text \<open>A list comprehension whose body may raise.\<close>

fun map_raise :: "('a \<Rightarrow> error + 'b) \<Rightarrow> 'a list \<Rightarrow> error + 'b list" where
  "map_raise f [] = Inr []"
| "map_raise f (x # xs) = bind (f x) (\<lambda>y. bind (map_raise f xs) (\<lambda>ys. Inr (y # ys)))"

definition distance_to :: "GeoCoordinate \<Rightarrow> pyobject \<Rightarrow> real \<Rightarrow> error + real" where
  "distance_to self other step =
     (case other of
        NonGeoCoordinate \<Rightarrow>
          Inl (GeoCoordinateError ''Cannot calculate distance to a non-GeoCoordinate object.'')
      | GeoCoordinateObj o' \<Rightarrow>
          let lat1 = radians (latitude self);
              lon1 = radians (longitude self);
              lat2 = radians (latitude o');
              lon2 = radians (longitude o');
              dlat = lat2 - lat1;
              dlon = lon2 - lon1;
              a = (sin (dlat / 2))\<^sup>2 + cos lat1 * cos lat2 * (sin (dlon / 2))\<^sup>2
          in bind (py_sqrt a) (\<lambda>sqrt_a.
             bind (py_sqrt (1 - a)) (\<lambda>sqrt_1a.
               let c = 2 * atan2 sqrt_a sqrt_1a
               in if step = 0
                  then
                    let midpoint_lat = (latitude self + latitude o') / 2
                    in bind (earth_radius midpoint_lat) (\<lambda>R. Inr (R * c))
                  else
                    bind (py_div c step) (\<lambda>q.
                      let steps = max (py_int q) 1;
                          fractions = linspace 0 1 (nat (steps + 1));
                          interpolated_lats = map (\<lambda>f. lat1 + f * dlat) fractions
                      in bind (map_raise (\<lambda>lat. earth_radius (degrees lat)) interpolated_lats)
                           (\<lambda>radii.
                         bind (py_div c (real_of_int steps)) (\<lambda>segment.
                           Inr (sum_list (map (\<lambda>r. r * segment) (butlast radii)))))))))"

section \<open>The specification's descriptions\<close>

text \<open>
  The radius of curvature as the specification writes it: a quotient of two square
  roots, at a latitude in degrees.
\<close>

definition earth_radius_spec :: "real \<Rightarrow> real" where
  "earth_radius_spec lat =
     sqrt ((6378137\<^sup>2 * cos (radians lat))\<^sup>2 + (6356752.314245\<^sup>2 * sin (radians lat))\<^sup>2)
       / sqrt ((6378137 * cos (radians lat))\<^sup>2 + (6356752.314245 * sin (radians lat))\<^sup>2)"

text \<open>The haversine central angle of two coordinates.\<close>

definition central_angle :: "GeoCoordinate \<Rightarrow> GeoCoordinate \<Rightarrow> real" where
  "central_angle p q =
     (let h = (sin ((radians (latitude q) - radians (latitude p)) / 2))\<^sup>2
              + cos (radians (latitude p)) * cos (radians (latitude q))
                * (sin ((radians (longitude q) - radians (longitude p)) / 2))\<^sup>2
      in 2 * atan2 (sqrt h) (sqrt (1 - h)))"

text \<open>
  The distance as the specification describes it: one radius at the mean latitude for
  \<open>step = 0\<close>; otherwise \<open>steps = max(floor(c / step), 1)\<close> segments of angle
  \<open>c / steps\<close>, each with the radius at its leading interpolated latitude.
\<close>

definition distance_to_spec :: "GeoCoordinate \<Rightarrow> GeoCoordinate \<Rightarrow> real \<Rightarrow> real" where
  "distance_to_spec p q step =
     (let c = central_angle p q
      in if step = 0 then earth_radius_spec ((latitude p + latitude q) / 2) * c
         else
           let steps = nat (max \<lfloor>c / step\<rfloor> 1)
           in (\<Sum>i<steps.
                 earth_radius_spec
                   (degrees (radians (latitude p)
                      + (real i / real steps) * (radians (latitude q) - radians (latitude p))))
                 * (c / real steps)))"

text \<open>
  The bounding box as the specification describes it: \<open>left = start.longitude\<close>,
  \<open>bottom = start.latitude\<close>, \<open>right = end.longitude\<close>, \<open>top = end.latitude\<close>, in the
  order (left, bottom, right, top).
\<close>

definition bounding_box_spec :: "GeoCoordinateExtent \<Rightarrow> real \<times> real \<times> real \<times> real" where
  "bounding_box_spec e =
     (longitude (extent_start e), latitude (extent_start e),
      longitude (extent_end e), latitude (extent_end e))"

text \<open>
  The window as the specification describes it: the inverse transform of (left, top)
  gives (row, col), that of (right, bottom) gives (row_max, col_max); both are truncated,
  then clamped.
\<close>

definition extent_to_window_spec ::
  "GeoCoordinateExtent \<Rightarrow> (real \<times> real \<Rightarrow> real \<times> real) \<Rightarrow> int \<Rightarrow> int \<Rightarrow> Window" where
  "extent_to_window_spec e inv_t raster_width raster_height =
     (case bounding_box_spec e of (left', bottom', right', top') \<Rightarrow>
        let row_min = max 0 (py_int (fst (inv_t (left', top'))));
            col_min = max 0 (py_int (snd (inv_t (left', top'))));
            row_max = min raster_height (py_int (fst (inv_t (right', bottom'))));
            col_max = min raster_width (py_int (snd (inv_t (right', bottom'))))
        in \<lparr>col_off = col_min, row_off = row_min,
            win_width = col_max - col_min, win_height = row_max - row_min\<rparr>)"

text \<open>
  The pixel lookup as the specification describes it: the inverse transform of
  (longitude, latitude) gives (col, row); inside the raster the value is
  \<open>array[row][col]\<close> at the truncated indices, outside it is "no value".
\<close>

definition value_at_spec ::
  "GeoCoordinate \<Rightarrow> (real \<times> real \<Rightarrow> real \<times> real) \<Rightarrow> int \<Rightarrow> int \<Rightarrow> real list list
     \<Rightarrow> real option" where
  "value_at_spec c inv_t raster_width raster_height array =
     (case inv_t (longitude c, latitude c) of (col, row) \<Rightarrow>
        if 0 \<le> col \<and> col < real_of_int raster_width
           \<and> 0 \<le> row \<and> row < real_of_int raster_height
        then Some (array ! nat (py_int row) ! nat (py_int col))
        else None)"

section \<open>Inputs of the examples\<close>

text \<open>
  The extent of the specification's example, start (40, -4) and end (41, -3); a
  north-up raster of 100 by 100 pixels whose inverse transform sends \<open>(x, y)\<close> to
  \<open>(x + 10, 50 - y)\<close> and whose band read returns the given samples; and a raster of
  the single pixel 7 whose inverse transform sends \<open>(x, y)\<close> to \<open>(x - x0, y)\<close>.
\<close>

definition example_extent :: GeoCoordinateExtent where
  "example_extent =
     \<lparr>extent_start = \<lparr>latitude = 40, longitude = -4\<rparr>,
      extent_end = \<lparr>latitude = 41, longitude = -3\<rparr>\<rparr>"

text \<open>
  Extents whose start is the north-west corner and whose end is the south-east corner:
  on the raster below the arguments of their windows are (9, 6, 1, 1) and (5, 2, 2, 2).
\<close>

definition north_west_extent :: GeoCoordinateExtent where
  "north_west_extent =
     \<lparr>extent_start = \<lparr>latitude = 41, longitude = -4\<rparr>,
      extent_end = \<lparr>latitude = 40, longitude = -3\<rparr>\<rparr>"

definition two_by_two_extent :: GeoCoordinateExtent where
  "two_by_two_extent =
     \<lparr>extent_start = \<lparr>latitude = 45, longitude = -8\<rparr>,
      extent_end = \<lparr>latitude = 43, longitude = -6\<rparr>\<rparr>"

definition example_inverse :: "real \<times> real \<Rightarrow> real \<times> real" where
  "example_inverse p = (fst p + 10, 50 - snd p)"

definition example_raster :: "real list list \<Rightarrow> DatasetReader" where
  "example_raster samples =
     \<lparr>inv_transform = example_inverse, width = 100, height = 100,
      read = (\<lambda>band window. samples)\<rparr>"

definition shifted_inverse :: "real \<Rightarrow> real \<times> real \<Rightarrow> real \<times> real" where
  "shifted_inverse x0 p = (fst p - x0, snd p)"

definition one_pixel_raster :: "real \<Rightarrow> DatasetReader" where
  "one_pixel_raster x0 =
     \<lparr>inv_transform = shifted_inverse x0, width = 1, height = 1,
      read = (\<lambda>band window. [[7]])\<rparr>"

section \<open>Validation of coordinates\<close>

text \<open>
  C5. The constructor rejects a latitude outside [-90, 90] and a longitude outside
  [-180, 180] with the coordinate error. The setters apply the same checks, and a
  rejected assignment leaves the object as it was: in particular a rejected longitude
  leaves the latitude untouched.
\<close>

theorem out_of_range_rejected:
  "(\<not> (-90 \<le> lat \<and> lat \<le> 90) \<longrightarrow>
      GeoCoordinate_init lat lon
        = Inl (GeoCoordinateError ''Latitude must be between -90 and 90 degrees.''))
   \<and> ((-90 \<le> lat \<and> lat \<le> 90) \<and> \<not> (-180 \<le> lon \<and> lon \<le> 180) \<longrightarrow>
      GeoCoordinate_init lat lon
        = Inl (GeoCoordinateError ''Longitude must be between -180 and 180 degrees.''))
   \<and> (\<not> (-90 \<le> v \<and> v \<le> 90) \<longrightarrow>
      latitude_setter v c
        = (Inl (GeoCoordinateError ''Latitude must be between -90 and 90 degrees.''), c))
   \<and> (\<not> (-180 \<le> w \<and> w \<le> 180) \<longrightarrow>
      longitude_setter w c
        = (Inl (GeoCoordinateError ''Longitude must be between -180 and 180 degrees.''), c)
      \<and> latitude (snd (longitude_setter w c)) = latitude c)"
  by (simp add: GeoCoordinate_init_def latitude_setter_def longitude_setter_def)

theorem out_of_range_rejected_witness:
  "GeoCoordinate_init (-100) 20
     = Inl (GeoCoordinateError ''Latitude must be between -90 and 90 degrees.'')
   \<and> GeoCoordinate_init 10 200
     = Inl (GeoCoordinateError ''Longitude must be between -180 and 180 degrees.'')
   \<and> latitude_setter (-100) \<lparr>latitude = 10, longitude = 20\<rparr>
     = (Inl (GeoCoordinateError ''Latitude must be between -90 and 90 degrees.''),
        \<lparr>latitude = 10, longitude = 20\<rparr>)
   \<and> longitude_setter 200 \<lparr>latitude = 10, longitude = 20\<rparr>
     = (Inl (GeoCoordinateError ''Longitude must be between -180 and 180 degrees.''),
        \<lparr>latitude = 10, longitude = 20\<rparr>)"
  using out_of_range_rejected [of "-100" 20 "-100" "\<lparr>latitude = 10, longitude = 20\<rparr>" 200]
    out_of_range_rejected [of 10 200 "-100" "\<lparr>latitude = 10, longitude = 20\<rparr>" 200]
  by simp

text \<open>
  Adding two coordinates near the pole, and subtracting across the poles: the sum and
  the difference leave the domain, and the operators raise.
\<close>

theorem add_sub_out_of_domain_counterexample:
  "in_domain \<lparr>latitude = 80, longitude = 0\<rparr>
   \<and> \<not> (latitude \<lparr>latitude = 80, longitude = 0\<rparr> + latitude \<lparr>latitude = 80, longitude = 0\<rparr> \<le> 90)
   \<and> GeoCoordinate_add \<lparr>latitude = 80, longitude = 0\<rparr>
        (GeoCoordinateObj \<lparr>latitude = 80, longitude = 0\<rparr>)
      = Inl (GeoCoordinateError ''Latitude must be between -90 and 90 degrees.'')
   \<and> in_domain \<lparr>latitude = -80, longitude = 0\<rparr>
   \<and> \<not> (-90 \<le> latitude \<lparr>latitude = -80, longitude = 0\<rparr> - latitude \<lparr>latitude = 80, longitude = 0\<rparr>)
   \<and> GeoCoordinate_sub \<lparr>latitude = -80, longitude = 0\<rparr>
        (GeoCoordinateObj \<lparr>latitude = 80, longitude = 0\<rparr>)
      = Inl (GeoCoordinateError ''Latitude must be between -90 and 90 degrees.'')"
  by (simp add: in_domain_def GeoCoordinate_add_def GeoCoordinate_sub_def GeoCoordinate_init_def)

text \<open>
  C6, as amended. For all coordinates \<open>a\<close> and \<open>b\<close> whose component-wise sum (or
  difference) has a latitude outside [-90, 90] or a longitude outside [-180, 180],
  \<open>a + b\<close> (or \<open>a - b\<close>) raises the coordinate error: the result is built by the
  constructor, whose checks run on it.
\<close>

theorem add_sub_revalidated:
  "(\<not> (-90 \<le> latitude a + latitude b \<and> latitude a + latitude b \<le> 90)
    \<or> \<not> (-180 \<le> longitude a + longitude b \<and> longitude a + longitude b \<le> 180)
    \<longrightarrow> raises_GeoCoordinateError (GeoCoordinate_add a (GeoCoordinateObj b)))
   \<and> (\<not> (-90 \<le> latitude a - latitude b \<and> latitude a - latitude b \<le> 90)
    \<or> \<not> (-180 \<le> longitude a - longitude b \<and> longitude a - longitude b \<le> 180)
    \<longrightarrow> raises_GeoCoordinateError (GeoCoordinate_sub a (GeoCoordinateObj b)))"
  by (simp add: raises_GeoCoordinateError_def GeoCoordinate_add_def GeoCoordinate_sub_def
      GeoCoordinate_init_def)

theorem add_sub_revalidated_witness:
  "raises_GeoCoordinateError (GeoCoordinate_add \<lparr>latitude = 85, longitude = 170\<rparr>
      (GeoCoordinateObj \<lparr>latitude = 10, longitude = 5\<rparr>))
   \<and> raises_GeoCoordinateError (GeoCoordinate_sub \<lparr>latitude = 10, longitude = -170\<rparr>
      (GeoCoordinateObj \<lparr>latitude = 5, longitude = 20\<rparr>))"
  using add_sub_revalidated [of "\<lparr>latitude = 85, longitude = 170\<rparr>" "\<lparr>latitude = 10, longitude = 5\<rparr>"]
    add_sub_revalidated [of "\<lparr>latitude = 10, longitude = -170\<rparr>" "\<lparr>latitude = 5, longitude = 20\<rparr>"]
  by simp

section \<open>Conversions\<close>

text \<open>
  C10. For a latitude in [-90, 90] and a longitude in [-180, 180] the constructor
  succeeds; the tuple and the list are (latitude, longitude), the dictionary has the
  keys "latitude" and "longitude"; and each of \<open>from_tuple\<close>, \<open>from_list\<close>, \<open>from_dict\<close>
  applied to the matching export gives the coordinate back, equal under \<open>__eq__\<close>.
\<close>

theorem conversions_roundtrip:
  assumes "-90 \<le> lat" and "lat \<le> 90" and "-180 \<le> lon" and "lon \<le> 180"
  shows "GeoCoordinate_init lat lon = Inr \<lparr>latitude = lat, longitude = lon\<rparr>
    \<and> to_tuple \<lparr>latitude = lat, longitude = lon\<rparr> = (lat, lon)
    \<and> to_list \<lparr>latitude = lat, longitude = lon\<rparr> = [lat, lon]
    \<and> to_dict \<lparr>latitude = lat, longitude = lon\<rparr> = [''latitude'' \<mapsto> lat, ''longitude'' \<mapsto> lon]
    \<and> from_tuple (to_tuple \<lparr>latitude = lat, longitude = lon\<rparr>)
        = Inr \<lparr>latitude = lat, longitude = lon\<rparr>
    \<and> from_list (to_list \<lparr>latitude = lat, longitude = lon\<rparr>)
        = Inr \<lparr>latitude = lat, longitude = lon\<rparr>
    \<and> from_dict (to_dict \<lparr>latitude = lat, longitude = lon\<rparr>)
        = Inr \<lparr>latitude = lat, longitude = lon\<rparr>
    \<and> GeoCoordinate_eq \<lparr>latitude = lat, longitude = lon\<rparr>
        (GeoCoordinateObj \<lparr>latitude = lat, longitude = lon\<rparr>) = Inr True"
  using assms
  by (simp add: GeoCoordinate_init_def to_tuple_def to_list_def to_dict_def from_tuple_def
      from_list_def from_dict_def GeoCoordinate_eq_def)

theorem conversions_roundtrip_witness:
  "GeoCoordinate_init 10 20 = Inr \<lparr>latitude = 10, longitude = 20\<rparr>
    \<and> to_tuple \<lparr>latitude = 10, longitude = 20\<rparr> = (10, 20)
    \<and> to_list \<lparr>latitude = 10, longitude = 20\<rparr> = [10, 20]
    \<and> to_dict \<lparr>latitude = 10, longitude = 20\<rparr> = [''latitude'' \<mapsto> 10, ''longitude'' \<mapsto> 20]
    \<and> from_tuple (to_tuple \<lparr>latitude = 10, longitude = 20\<rparr>)
        = Inr \<lparr>latitude = 10, longitude = 20\<rparr>
    \<and> from_list (to_list \<lparr>latitude = 10, longitude = 20\<rparr>)
        = Inr \<lparr>latitude = 10, longitude = 20\<rparr>
    \<and> from_dict (to_dict \<lparr>latitude = 10, longitude = 20\<rparr>)
        = Inr \<lparr>latitude = 10, longitude = 20\<rparr>
    \<and> GeoCoordinate_eq \<lparr>latitude = 10, longitude = 20\<rparr>
        (GeoCoordinateObj \<lparr>latitude = 10, longitude = 20\<rparr>) = Inr True"
  by (rule conversions_roundtrip) simp_all

section \<open>The bounding box and the pixel window\<close>

text \<open>
  C2. The extent with start (40, -4) and end (41, -3), the example of the
  specification: \<open>to_dict\<close> gives left = -4, bottom = 40, right = -3, top = 41, the
  mapping of the specification, while \<open>to_tuple\<close> and \<open>to_list\<close> give
  (-4, 41, -3, 40): their second entry is the latitude of the end and their fourth the
  latitude of the start.
\<close>

theorem extent_exports_at_example:
  "extent_to_dict example_extent
     = [''left'' \<mapsto> -4, ''bottom'' \<mapsto> 40, ''right'' \<mapsto> -3, ''top'' \<mapsto> 41]
   \<and> bounding_box_spec example_extent = (-4, 40, -3, 41)
   \<and> extent_to_tuple example_extent = (-4, 41, -3, 40)
   \<and> extent_to_list example_extent = [-4, 41, -3, 40]"
  by (simp add: example_extent_def extent_to_dict_def bounding_box_spec_def extent_to_tuple_def
      extent_to_list_def)

lemma py_int_of_int [simp]: "py_int (real_of_int k) = k"
  by (simp add: py_int_def)

lemma py_int_numeral [simp]: "py_int (numeral n) = numeral n"
  using py_int_of_int [of "numeral n"] by simp

text \<open>
  C3. The same extent on the raster of 100 by 100 pixels: the code unpacks
  \<open>to_tuple\<close>, so its corner (left, top) is (-4, 40) and its window is (10, 6, -1, 1),
  of negative width, while the window of the specification, from the corner (-4, 41),
  is (9, 6, 1, 1).
\<close>

theorem extent_window_at_example:
  "extent_window (example_raster []) example_extent
     = \<lparr>col_off = 10, row_off = 6, win_width = -1, win_height = 1\<rparr>
   \<and> extent_to_window_spec example_extent example_inverse 100 100
     = \<lparr>col_off = 9, row_off = 6, win_width = 1, win_height = 1\<rparr>"
  by (simp add: example_raster_def example_extent_def example_inverse_def extent_window_def
      extent_to_window_spec_def extent_to_tuple_def bounding_box_spec_def)

text \<open>
  In general the window of the code is the window of the specification for the extent
  whose two latitudes are exchanged.
\<close>

lemma extent_window_swapped_latitudes:
  "extent_window src e =
     extent_to_window_spec
       \<lparr>extent_start = (extent_start e)\<lparr>latitude := latitude (extent_end e)\<rparr>,
        extent_end = (extent_end e)\<lparr>latitude := latitude (extent_start e)\<rparr>\<rparr>
       (inv_transform src) (width src) (height src)"
  by (simp add: extent_window_def extent_to_window_spec_def extent_to_tuple_def
      bounding_box_spec_def Let_def split: prod.splits)

section \<open>Aggregation over an empty selection\<close>

lemma bind_Inr [simp]: "bind (Inr x) f = f x"
  by (simp add: bind_def)

lemma bind_Inl [simp]: "bind (Inl e) f = Inl e"
  by (simp add: bind_def)

lemma clip_valid_window:
  assumes "0 \<le> win_width (extent_window src extent)"
    and "0 \<le> win_height (extent_window src extent)"
  shows "clip_tiff_to_extent src extent = Inr (read src 1 (extent_window src extent))"
  using assms by (simp add: clip_tiff_to_extent_def Window_init_def not_less [symmetric])

text \<open>
  The extent with start (41, -4) and end (40, -3) on the raster of 100 by 100 pixels:
  the window is (9, 6, 1, 1), its one sample is 0, so that no sample is greater than
  0, and the mode "mean" returns NaN instead of raising.
\<close>

theorem empty_selection_mean_counterexample:
  "extent_window (example_raster [[0]]) north_west_extent
     = \<lparr>col_off = 9, row_off = 6, win_width = 1, win_height = 1\<rparr>
   \<and> clip_tiff_to_extent (example_raster [[0]]) north_west_extent = Inr [[0]]
   \<and> positive_samples [[0]] = []
   \<and> get_population_density_in_extent north_west_extent (example_raster [[0]]) ''mean''
      = Inr NaN"
  by (simp add: example_raster_def north_west_extent_def example_inverse_def extent_window_def
      extent_to_tuple_def py_int_def get_population_density_in_extent_def
      clip_tiff_to_extent_def Window_init_def positive_samples_def np_mean_def)

text \<open>
  C4, as amended. When the window has a width and a height that are not negative and
  none of its samples is greater than 0, the modes "max" and "min" raise the array
  library's \<open>ValueError\<close> for a reduction of an empty array, and the mode "mean"
  returns NaN.
\<close>

theorem empty_selection_outcomes:
  assumes "0 \<le> win_width (extent_window src extent)"
    and "0 \<le> win_height (extent_window src extent)"
    and "positive_samples (read src 1 (extent_window src extent)) = []"
  shows "get_population_density_in_extent extent src ''mean'' = Inr NaN
    \<and> get_population_density_in_extent extent src ''max''
        = Inl (ValueError ''zero-size array to reduction operation maximum which has no identity'')
    \<and> get_population_density_in_extent extent src ''min''
        = Inl (ValueError ''zero-size array to reduction operation minimum which has no identity'')"
  using assms
  by (simp add: get_population_density_in_extent_def clip_valid_window np_mean_def np_max_def
      np_min_def)

theorem empty_selection_outcomes_witness:
  "0 \<le> win_width (extent_window (example_raster [[0, -2], [-1, 0]]) two_by_two_extent)
    \<and> 0 \<le> win_height (extent_window (example_raster [[0, -2], [-1, 0]]) two_by_two_extent)
    \<and> positive_samples (read (example_raster [[0, -2], [-1, 0]]) 1
          (extent_window (example_raster [[0, -2], [-1, 0]]) two_by_two_extent)) = []
    \<and> get_population_density_in_extent two_by_two_extent (example_raster [[0, -2], [-1, 0]])
          ''mean''
        = Inr NaN
    \<and> get_population_density_in_extent two_by_two_extent (example_raster [[0, -2], [-1, 0]])
          ''max''
        = Inl (ValueError ''zero-size array to reduction operation maximum which has no identity'')
    \<and> get_population_density_in_extent two_by_two_extent (example_raster [[0, -2], [-1, 0]])
          ''min''
        = Inl (ValueError ''zero-size array to reduction operation minimum which has no identity'')"
proof -
  have w: "extent_window (example_raster [[0, -2], [-1, 0]]) two_by_two_extent
      = \<lparr>col_off = 5, row_off = 2, win_width = 2, win_height = 2\<rparr>"
    by (simp add: example_raster_def two_by_two_extent_def example_inverse_def extent_window_def
        extent_to_tuple_def py_int_def)
  have h1: "0 \<le> win_width (extent_window (example_raster [[0, -2], [-1, 0]]) two_by_two_extent)"
    by (simp add: w)
  have h2: "0 \<le> win_height (extent_window (example_raster [[0, -2], [-1, 0]]) two_by_two_extent)"
    by (simp add: w)
  have h3: "positive_samples (read (example_raster [[0, -2], [-1, 0]]) 1
      (extent_window (example_raster [[0, -2], [-1, 0]]) two_by_two_extent)) = []"
    by (simp add: example_raster_def positive_samples_def)
  show ?thesis
    using h1 h2 h3 empty_selection_outcomes [OF h1 h2 h3] by blast
qed

text \<open>
  When the width or the height of the window is negative, the constructor of the
  window raises before any sample is read, whatever the mode: so it is for the extent
  with start (40, -4) and end (41, -3), whose window has the width -1.
\<close>

lemma negative_window_raises:
  assumes "win_width (extent_window src extent) < 0 \<or> win_height (extent_window src extent) < 0"
  shows "get_population_density_in_extent extent src mode
    = Inl (ValueError ''Number of columns or rows must be non-negative'')"
  using assms
  by (simp add: get_population_density_in_extent_def clip_tiff_to_extent_def Window_init_def)

lemma negative_window_example:
  "get_population_density_in_extent example_extent (example_raster [[0]]) ''mean''
     = Inl (ValueError ''Number of columns or rows must be non-negative'')"
  by (rule negative_window_raises)
    (simp add: example_raster_def example_extent_def example_inverse_def extent_window_def
      extent_to_tuple_def py_int_def)

text \<open>With samples greater than 0 the three modes return the mean, the maximum and the minimum.\<close>

lemma aggregate_example:
  "get_population_density_in_extent two_by_two_extent (example_raster [[10, 0], [20, 30]]) ''mean''
      = Inr (Num 20)
   \<and> get_population_density_in_extent two_by_two_extent (example_raster [[10, 0], [20, 30]]) ''max''
      = Inr (Num 30)
   \<and> get_population_density_in_extent two_by_two_extent (example_raster [[10, 0], [20, 30]]) ''min''
      = Inr (Num 10)"
  by (simp add: example_raster_def two_by_two_extent_def example_inverse_def extent_window_def
      extent_to_tuple_def py_int_def get_population_density_in_extent_def clip_tiff_to_extent_def
      Window_init_def positive_samples_def np_mean_def np_max_def np_min_def)

section \<open>Pixel lookup\<close>

text \<open>
  C7. The coordinate (0, 100) on the raster of one pixel. With the identity as inverse
  transform the point (100, 0) is outside the raster and the specification gives "no
  value"; with the inverse transform \<open>(x, y) \<mapsto> (x - 100, y)\<close> the point is the pixel
  (0, 0) and the specification gives its value 7. In both cases the code raises the
  coordinate error.
\<close>

theorem pixel_lookup_raises_at_example:
  "in_domain \<lparr>latitude = 0, longitude = 100\<rparr>
   \<and> value_at_spec \<lparr>latitude = 0, longitude = 100\<rparr> (shifted_inverse 0) 1 1 [[7]] = None
   \<and> get_value_from_coordinates \<lparr>latitude = 0, longitude = 100\<rparr> (one_pixel_raster 0) [[7]]
      = Inl (GeoCoordinateError ''Latitude must be between -90 and 90 degrees.'')
   \<and> value_at_spec \<lparr>latitude = 0, longitude = 100\<rparr> (shifted_inverse 100) 1 1 [[7]] = Some 7
   \<and> get_value_from_coordinates \<lparr>latitude = 0, longitude = 100\<rparr> (one_pixel_raster 100) [[7]]
      = Inl (GeoCoordinateError ''Latitude must be between -90 and 90 degrees.'')"
  by (simp add: in_domain_def value_at_spec_def shifted_inverse_def one_pixel_raster_def
      get_value_from_coordinates_def inverted_def GeoCoordinate_init_def bind_def py_int_def)

text \<open>
  For a longitude in [-90, 90] and an array of the raster's shape the code does return
  what the specification describes.
\<close>

lemma pixel_lookup_within_latitude_range:
  assumes c: "in_domain c"
    and lon: "-90 \<le> longitude c" "longitude c \<le> 90"
    and rows: "int (length data) = height src"
    and cols: "\<And>r. r \<in> set data \<Longrightarrow> int (length r) = width src"
  shows "get_value_from_coordinates c src data
    = Inr (value_at_spec c (inv_transform src) (width src) (height src) data)"
proof -
  obtain col row where cr: "inv_transform src (longitude c, latitude c) = (col, row)"
    by (cases "inv_transform src (longitude c, latitude c)")
  have inv: "inverted c = Inr \<lparr>latitude = longitude c, longitude = latitude c\<rparr>"
    using c lon by (simp add: inverted_def GeoCoordinate_init_def in_domain_def)
  show ?thesis
  proof (cases "0 \<le> col \<and> col < real_of_int (width src)
      \<and> 0 \<le> row \<and> row < real_of_int (height src)")
    case False
    then show ?thesis
      using cr by (auto simp add: get_value_from_coordinates_def inv bind_def to_tuple_def
          value_at_spec_def)
  next
    case True
    then have r0: "0 \<le> \<lfloor>row\<rfloor>" and r1: "\<lfloor>row\<rfloor> < height src"
      and c0: "0 \<le> \<lfloor>col\<rfloor>" and c1: "\<lfloor>col\<rfloor> < width src"
      by (simp_all add: floor_less_iff)
    have pr: "py_int row = \<lfloor>row\<rfloor>" and pc: "py_int col = \<lfloor>col\<rfloor>"
      using True by (simp_all add: py_int_def)
    have "nat \<lfloor>row\<rfloor> < length data" using r0 r1 rows by linarith
    then have "data ! nat \<lfloor>row\<rfloor> \<in> set data" by simp
    then have len: "int (length (data ! nat \<lfloor>row\<rfloor>)) = width src" by (rule cols)
    have get: "ndarray_get data \<lfloor>row\<rfloor> \<lfloor>col\<rfloor> = Inr (data ! nat \<lfloor>row\<rfloor> ! nat \<lfloor>col\<rfloor>)"
      using r0 r1 c0 c1 rows len by (simp add: ndarray_get_def Let_def)
    show ?thesis
      using True cr
      by (simp add: get_value_from_coordinates_def inv bind_def to_tuple_def value_at_spec_def
          pr pc get)
  qed
qed

text \<open>
  C8. For a coordinate in the domain, \<open>inverted\<close> succeeds, with latitude and longitude
  exchanged, exactly when the longitude is in [-90, 90]; otherwise the constructor
  rejects the new latitude, and the pixel lookup, which evaluates \<open>inverted\<close> first,
  raises the same error whatever the raster and the array.
\<close>

theorem inverted_revalidates:
  assumes "in_domain c"
  shows "(-90 \<le> longitude c \<and> longitude c \<le> 90 \<longrightarrow>
            inverted c = Inr \<lparr>latitude = longitude c, longitude = latitude c\<rparr>)
    \<and> (\<not> (-90 \<le> longitude c \<and> longitude c \<le> 90) \<longrightarrow>
            inverted c = Inl (GeoCoordinateError ''Latitude must be between -90 and 90 degrees.'')
          \<and> get_value_from_coordinates c src data
              = Inl (GeoCoordinateError ''Latitude must be between -90 and 90 degrees.''))"
  using assms
  by (simp add: in_domain_def inverted_def GeoCoordinate_init_def get_value_from_coordinates_def
      bind_def)

theorem inverted_revalidates_witness:
  "inverted \<lparr>latitude = 10, longitude = 20\<rparr> = Inr \<lparr>latitude = 20, longitude = 10\<rparr>
   \<and> inverted \<lparr>latitude = 40, longitude = 116\<rparr>
       = Inl (GeoCoordinateError ''Latitude must be between -90 and 90 degrees.'')
   \<and> get_value_from_coordinates \<lparr>latitude = 40, longitude = 116\<rparr> (example_raster []) []
       = Inl (GeoCoordinateError ''Latitude must be between -90 and 90 degrees.'')"
  using inverted_revalidates [of "\<lparr>latitude = 10, longitude = 20\<rparr>"]
    inverted_revalidates [of "\<lparr>latitude = 40, longitude = 116\<rparr>" "example_raster []" "[]"]
  by (simp add: in_domain_def)

section \<open>The distance\<close>

text \<open>Auxiliary facts: the operations of \<open>distance_to\<close> do not raise on coordinates.\<close>

lemma ellipse_denominator_pos:
  fixes a b t :: real
  assumes "0 < a" and "0 < b"
  shows "0 < (a * cos t)\<^sup>2 + (b * sin t)\<^sup>2"
proof (cases "cos t = 0")
  case True
  then have "sin t \<noteq> 0"
    using sin_cos_squared_add [of t] by auto
  then have "0 < (b * sin t)\<^sup>2" using assms by simp
  then show ?thesis using True by simp
next
  case False
  then have "0 < (a * cos t)\<^sup>2" using assms by simp
  moreover have "0 \<le> (b * sin t)\<^sup>2" by simp
  ultimately show ?thesis by linarith
qed

lemma py_div_ok: "y \<noteq> 0 \<Longrightarrow> py_div x y = Inr (x / y)"
  by (simp add: py_div_def)

lemma py_sqrt_ok: "0 \<le> x \<Longrightarrow> py_sqrt x = Inr (sqrt x)"
  by (simp add: py_sqrt_def)

lemma earth_radius_total: "earth_radius lat = Inr (earth_radius_spec lat)"
proof -
  let ?t = "radians lat"
  let ?num = "((6378137::real)\<^sup>2 * cos ?t)\<^sup>2 + (6356752.314245\<^sup>2 * sin ?t)\<^sup>2"
  let ?den = "((6378137::real) * cos ?t)\<^sup>2 + (6356752.314245 * sin ?t)\<^sup>2"
  have den: "0 < ?den" by (rule ellipse_denominator_pos) simp_all
  then have den0: "?den \<noteq> 0" by (rule less_imp_neq [THEN not_sym])
  have num: "0 \<le> ?num" by (intro add_nonneg_nonneg zero_le_power2)
  have q: "0 \<le> ?num / ?den"
    using num den by (intro divide_nonneg_pos)
  have "earth_radius lat = bind (py_div ?num ?den) py_sqrt"
    by (simp only: earth_radius_def Let_def)
  also have "\<dots> = py_sqrt (?num / ?den)"
    by (simp only: py_div_ok [OF den0] bind_Inr)
  also have "\<dots> = Inr (sqrt (?num / ?den))"
    by (rule py_sqrt_ok [OF q])
  also have "\<dots> = Inr (earth_radius_spec lat)"
    by (simp only: earth_radius_spec_def real_sqrt_divide)
  finally show ?thesis .
qed

lemma map_raise_total:
  "(\<And>x. x \<in> set xs \<Longrightarrow> f x = Inr (g x)) \<Longrightarrow> map_raise f xs = Inr (map g xs)"
  by (induction xs) simp_all

lemma atan2_nonneg: "0 \<le> y \<Longrightarrow> 0 \<le> x \<Longrightarrow> 0 \<le> atan2 y x"
  by (simp add: atan2_def zero_le_arctan_iff)

lemma cos_radians_nonneg:
  assumes "-90 \<le> lat" and "lat \<le> 90"
  shows "0 \<le> cos (radians lat)"
proof (rule cos_ge_zero)
  have "pi * (- 90) \<le> pi * lat"
    using assms by (intro mult_left_mono) simp_all
  then show "- (pi / 2) \<le> radians lat"
    by (simp add: radians_def field_simps)
  have "pi * lat \<le> pi * 90"
    using assms by (intro mult_left_mono) simp_all
  then show "radians lat \<le> pi / 2"
    by (simp add: radians_def field_simps)
qed

lemma sin_half_squared: "(sin (x / 2))\<^sup>2 = (1 - cos x) / 2" for x :: real
  using cos_double_sin [of "x / 2"] by simp

lemma haversine_bounds:
  fixes l1 l2 d :: real
  assumes c1: "0 \<le> cos l1" and c2: "0 \<le> cos l2"
  shows "0 \<le> (sin ((l2 - l1) / 2))\<^sup>2 + cos l1 * cos l2 * (sin (d / 2))\<^sup>2"
    and "(sin ((l2 - l1) / 2))\<^sup>2 + cos l1 * cos l2 * (sin (d / 2))\<^sup>2 \<le> 1"
proof -
  have p: "0 \<le> cos l1 * cos l2" using c1 c2 by simp
  show "0 \<le> (sin ((l2 - l1) / 2))\<^sup>2 + cos l1 * cos l2 * (sin (d / 2))\<^sup>2"
    using p by simp
  have s: "(sin (d / 2))\<^sup>2 \<le> 1"
    using abs_sin_le_one [of "d / 2"] by (simp add: abs_square_le_1)
  have "cos l1 * cos l2 * (sin (d / 2))\<^sup>2 \<le> cos l1 * cos l2 * 1"
    by (rule mult_left_mono [OF s p])
  then have a: "cos l1 * cos l2 * (sin (d / 2))\<^sup>2 \<le> cos l1 * cos l2" by simp
  have h: "(sin ((l2 - l1) / 2))\<^sup>2 = (1 - cos (l2 - l1)) / 2"
    by (rule sin_half_squared)
  have "(sin ((l2 - l1) / 2))\<^sup>2 + cos l1 * cos l2 = 1 / 2 + cos (l1 + l2) / 2"
    unfolding h by (simp add: cos_diff cos_add field_simps)
  also have "\<dots> \<le> 1" using cos_le_one [of "l1 + l2"] by linarith
  finally show "(sin ((l2 - l1) / 2))\<^sup>2 + cos l1 * cos l2 * (sin (d / 2))\<^sup>2 \<le> 1"
    using a by linarith
qed


lemma py_int_nonneg: "0 \<le> x \<Longrightarrow> py_int x = \<lfloor>x\<rfloor>"
  by (simp add: py_int_def)

lemma linspace_unit:
  "0 < n \<Longrightarrow> linspace 0 1 (Suc n) = map (\<lambda>i. real i / real n) [0..<Suc n]"
  by (simp add: linspace_def)

lemma leading_segments_sum:
  "sum_list (map (\<lambda>r. r * seg) (butlast (map g [0..<Suc n]))) = (\<Sum>i<n. g i * seg)"
    for g :: "nat \<Rightarrow> real"
proof -
  have "butlast (map g [0..<Suc n]) = map g [0..<n]"
    by simp
  then have "sum_list (map (\<lambda>r. r * seg) (butlast (map g [0..<Suc n])))
      = sum_list (map (\<lambda>i. g i * seg) [0..<n])"
    by (simp add: comp_def)
  also have "\<dots> = (\<Sum>i<n. g i * seg)"
    by (simp add: interv_sum_list_conv_sum_set_nat atLeast0LessThan)
  finally show ?thesis .
qed

lemma stepped_distance:
  assumes c: "0 \<le> c" and step: "0 < step"
  shows "bind (py_div c step) (\<lambda>q.
           bind (map_raise (\<lambda>lat. earth_radius (degrees lat))
                   (map (\<lambda>f. lat1 + f * dlat) (linspace 0 1 (nat (max (py_int q) 1 + 1)))))
             (\<lambda>radii.
               bind (py_div c (real_of_int (max (py_int q) 1))) (\<lambda>segment.
                 Inr (sum_list (map (\<lambda>r. r * segment) (butlast radii))))))
         = Inr (\<Sum>i<nat (max \<lfloor>c / step\<rfloor> 1).
                  earth_radius_spec
                    (degrees (lat1 + (real i / real (nat (max \<lfloor>c / step\<rfloor> 1))) * dlat))
                  * (c / real (nat (max \<lfloor>c / step\<rfloor> 1))))"
proof -
  define n where "n = nat (max \<lfloor>c / step\<rfloor> 1)"
  have q: "0 \<le> c / step" using c step by simp
  have n: "0 < n" by (simp add: n_def)
  have m: "0 \<le> max \<lfloor>c / step\<rfloor> 1"
    by (simp add: le_max_iff_disj)
  have s: "max (py_int (c / step)) 1 = int n"
    using m by (simp add: n_def py_int_nonneg [OF q])
  have d: "py_div c step = Inr (c / step)"
    using step by (simp add: py_div_def)
  have l: "nat (int n + 1) = Suc n" by simp
  have r: "map_raise (\<lambda>lat. earth_radius (degrees lat))
             (map (\<lambda>f. lat1 + f * dlat) (linspace 0 1 (Suc n)))
           = Inr (map (\<lambda>i. earth_radius_spec (degrees (lat1 + (real i / real n) * dlat)))
                [0..<Suc n])"
    by (simp only: linspace_unit [OF n] map_map comp_def
        map_raise_total [where g = "\<lambda>lat. earth_radius_spec (degrees lat)",
          OF earth_radius_total])
  have e: "py_div c (real_of_int (int n)) = Inr (c / real n)"
    using n by (simp add: py_div_def)
  show ?thesis
    unfolding n_def [symmetric]
    by (simp only: d bind_Inr s l r e leading_segments_sum)
qed

text \<open>
  When the haversine term lies in [0, 1] neither square root raises, and the result
  of the code is the distance of the specification.
\<close>

lemma distance_to_haversine_in_unit:
  assumes h0: "0 \<le> (sin ((radians (latitude q) - radians (latitude p)) / 2))\<^sup>2
              + cos (radians (latitude p)) * cos (radians (latitude q))
                * (sin ((radians (longitude q) - radians (longitude p)) / 2))\<^sup>2"
    and h1: "0 \<le> 1 - ((sin ((radians (latitude q) - radians (latitude p)) / 2))\<^sup>2
              + cos (radians (latitude p)) * cos (radians (latitude q))
                * (sin ((radians (longitude q) - radians (longitude p)) / 2))\<^sup>2)"
    and step: "0 \<le> step"
  shows "distance_to p (GeoCoordinateObj q) step = Inr (distance_to_spec p q step)"
proof -
  let ?lat1 = "radians (latitude p)"
  let ?lat2 = "radians (latitude q)"
  let ?dlon = "radians (longitude q) - radians (longitude p)"
  let ?h = "(sin ((?lat2 - ?lat1) / 2))\<^sup>2 + cos ?lat1 * cos ?lat2 * (sin (?dlon / 2))\<^sup>2"
  let ?c = "2 * atan2 (sqrt ?h) (sqrt (1 - ?h))"
  have "0 \<le> atan2 (sqrt ?h) (sqrt (1 - ?h))"
    by (rule atan2_nonneg) (simp_all only: real_sqrt_ge_zero h0 h1)
  then have c: "0 \<le> ?c" by simp
  show ?thesis
  proof (cases "step = 0")
    case True
    show ?thesis
      unfolding distance_to_def distance_to_spec_def central_angle_def Let_def pyobject.case
      by (simp only: py_sqrt_ok [OF h0] py_sqrt_ok [OF h1] bind_Inr True if_True
          simp_thms earth_radius_total)
  next
    case False
    then have pos: "0 < step" using step by simp
    show ?thesis
      unfolding distance_to_def distance_to_spec_def central_angle_def Let_def pyobject.case
      by (simp only: py_sqrt_ok [OF h0] py_sqrt_ok [OF h1] bind_Inr False if_False
          stepped_distance [OF c pos])
  qed
qed

text \<open>
  C1. For coordinates in the domain and \<open>step \<ge> 0\<close>, \<open>distance_to\<close> returns, without
  raising, the value the specification describes: with the haversine central angle
  \<open>c\<close>, the radius at the mean latitude times \<open>c\<close> when \<open>step = 0\<close>; otherwise, with
  \<open>steps = max(floor(c / step), 1)\<close>, the sum over the first \<open>steps\<close> of the
  \<open>steps + 1\<close> evenly spaced latitudes of the radius there times \<open>c / steps\<close>.
\<close>

theorem distance_to_refines_spec:
  assumes p: "in_domain p" and q: "in_domain q" and step: "0 \<le> step"
  shows "distance_to p (GeoCoordinateObj q) step = Inr (distance_to_spec p q step)"
proof -
  let ?lat1 = "radians (latitude p)"
  let ?lat2 = "radians (latitude q)"
  let ?dlon = "radians (longitude q) - radians (longitude p)"
  let ?h = "(sin ((?lat2 - ?lat1) / 2))\<^sup>2 + cos ?lat1 * cos ?lat2 * (sin (?dlon / 2))\<^sup>2"
  have c1: "0 \<le> cos ?lat1" using p by (simp add: in_domain_def cos_radians_nonneg)
  have c2: "0 \<le> cos ?lat2" using q by (simp add: in_domain_def cos_radians_nonneg)
  have h0: "0 \<le> ?h" by (rule haversine_bounds(1) [OF c1 c2])
  have "?h \<le> 1" by (rule haversine_bounds(2) [OF c1 c2])
  then have h1: "0 \<le> 1 - ?h" by simp
  show ?thesis by (rule distance_to_haversine_in_unit [OF h0 h1 step])
qed

theorem distance_to_refines_spec_witness:
  "in_domain \<lparr>latitude = 0, longitude = 0\<rparr>
   \<and> in_domain \<lparr>latitude = 10, longitude = 1\<rparr>
   \<and> (0::real) \<le> 1 / 100
   \<and> distance_to \<lparr>latitude = 0, longitude = 0\<rparr>
        (GeoCoordinateObj \<lparr>latitude = 10, longitude = 1\<rparr>) (1 / 100)
      = Inr (distance_to_spec \<lparr>latitude = 0, longitude = 0\<rparr>
               \<lparr>latitude = 10, longitude = 1\<rparr> (1 / 100))"
  by (intro conjI distance_to_refines_spec) (simp_all add: in_domain_def)

text \<open>
  C9. For every coordinate \<open>x\<close> and every \<open>step \<ge> 0\<close>, \<open>x.distance_to(x, step)\<close>
  returns 0: no division raises, the divisor \<open>steps\<close> of the step branch being at
  least 1.
\<close>

theorem distance_to_self_zero:
  assumes step: "0 \<le> step"
  shows "distance_to x (GeoCoordinateObj x) step = Inr 0"
proof -
  have c: "central_angle x x = 0"
    by (simp add: central_angle_def atan2_def)
  have "distance_to_spec x x step = 0"
    unfolding distance_to_spec_def Let_def c by simp
  moreover have "distance_to x (GeoCoordinateObj x) step = Inr (distance_to_spec x x step)"
    by (rule distance_to_haversine_in_unit [OF _ _ step]) simp_all
  ultimately show ?thesis by simp
qed

theorem distance_to_self_zero_witness:
  "(0::real) \<le> 5
   \<and> distance_to \<lparr>latitude = 40, longitude = -4\<rparr>
        (GeoCoordinateObj \<lparr>latitude = 40, longitude = -4\<rparr>) 5 = Inr 0
   \<and> distance_to \<lparr>latitude = 40, longitude = -4\<rparr>
        (GeoCoordinateObj \<lparr>latitude = 40, longitude = -4\<rparr>) 0 = Inr 0"
  by (intro conjI distance_to_self_zero) simp_all

end
